theory Spec2Isabelle
  imports Complex_Main "HOL-Library.Monad_Syntax" "HOL-Library.AList"
begin

section \<open>JavaScript values used by App.js\<close>

text \<open>
  The front end (src/frontend/src/App.js) is a React program.  Its data are JavaScript
  values: the answers of \<^verbatim>\<open>prompt\<close>, JSON payloads of the back end, and numbers
  produced by \<^verbatim>\<open>parseInt\<close> and \<^verbatim>\<open>parseFloat\<close>.

  A number is a double.  \<open>Num q\<close> stands for the finite double whose value is the
  rational \<open>q\<close>; the two zeros are not told apart (both are falsy, neither is greater
  than 0, and JSON writes both as 0).  \<open>to_double\<close> maps the mathematical value of a
  numeric literal to the double it denotes: beyond the largest double it is an infinity,
  below half of the smallest subnormal it is zero.  Rounding of the mantissa to 53 bits
  is not modelled; it changes neither the sign of a value nor whether it is an integer
  that came from \<^verbatim>\<open>parseInt\<close>.
\<close>

datatype number = NaN | PosInfinity | NegInfinity | Num rat

datatype jsval =
    Undefined
  | Null
  | Boolean bool
  | Number number
  | String string
  | Array "jsval list"
  | Object "(string \<times> jsval) list"

text \<open>ToBoolean: the falsy values are undefined, null, false, 0, NaN and the empty string.\<close>

fun truthy :: "jsval \<Rightarrow> bool" where
  "truthy Undefined = False"
| "truthy Null = False"
| "truthy (Boolean b) = b"
| "truthy (Number NaN) = False"
| "truthy (Number (Num q)) = (q \<noteq> 0)"
| "truthy (Number _) = True"
| "truthy (String s) = (s \<noteq> [])"
| "truthy (Array _) = True"
| "truthy (Object _) = True"

text \<open>\<^verbatim>\<open>a || b\<close>: the left operand when it is truthy, the right one otherwise.\<close>

definition js_or :: "jsval \<Rightarrow> jsval \<Rightarrow> jsval" where
  "js_or a b = (if truthy a then a else b)"

text \<open>
  Property read \<^verbatim>\<open>v.k\<close>.  On \<^verbatim>\<open>null\<close> and \<^verbatim>\<open>undefined\<close> it throws a TypeError
  (\<open>None\<close>); on an object it is the property's value, \<^verbatim>\<open>undefined\<close> when the object
  has no such property; the primitives and arrays of a JSON payload have none of the
  properties this program reads.
\<close>

fun getProp :: "jsval \<Rightarrow> string \<Rightarrow> jsval option" where
  "getProp Undefined k = None"
| "getProp Null k = None"
| "getProp (Object ps) k = (case map_of ps k of None \<Rightarrow> Some Undefined | Some v \<Rightarrow> Some v)"
| "getProp _ k = Some Undefined"


subsection \<open>Numeric literals in strings\<close>

definition isDigit :: "char \<Rightarrow> bool" where
  "isDigit c = (c \<in> set ''0123456789'')"

definition isHexDigit :: "char \<Rightarrow> bool" where
  "isHexDigit c = (isDigit c \<or> c \<in> set ''abcdef'' \<or> c \<in> set ''ABCDEF'')"

text \<open>
  Strings are ASCII.  Of the characters that JavaScript trims as white space, the six
  ASCII ones are modelled: space, tab, line feed, vertical tab, form feed and carriage
  return.
\<close>

definition isWhiteSpace :: "char \<Rightarrow> bool" where
  "isWhiteSpace c = (c \<in> set [CHR '' '', CHR 0x09, CHR 0x0A, CHR 0x0B, CHR 0x0C, CHR 0x0D])"

definition digitValue :: "char \<Rightarrow> nat" where
  "digitValue c =
     (if isDigit c then of_char c - 48
      else if c \<in> set ''abcdef'' then of_char c - 87
      else of_char c - 55)"

text \<open>The value of a digit string in a radix, most significant digit first.\<close>

definition digitsValue :: "nat \<Rightarrow> string \<Rightarrow> nat" where
  "digitsValue radix ds = foldl (\<lambda>acc c. acc * radix + digitValue c) 0 ds"

definition to_double :: "rat \<Rightarrow> number" where
  "to_double q =
     (if 2 ^ 1024 - 2 ^ 970 \<le> q then PosInfinity
      else if q \<le> - (2 ^ 1024 - 2 ^ 970) then NegInfinity
      else if \<bar>q\<bar> * 2 ^ 1075 \<le> 1 then Num 0
      else Num q)"

definition negate :: "number \<Rightarrow> number" where
  "negate n = (case n of NaN \<Rightarrow> NaN | PosInfinity \<Rightarrow> NegInfinity
                | NegInfinity \<Rightarrow> PosInfinity | Num q \<Rightarrow> Num (- q))"

definition trimStart :: "string \<Rightarrow> string" where
  "trimStart s = dropWhile isWhiteSpace s"

definition trim :: "string \<Rightarrow> string" where
  "trim s = rev (dropWhile isWhiteSpace (rev (dropWhile isWhiteSpace s)))"

text \<open>
  An optional exponent part at the head of a string: \<^verbatim>\<open>e\<close> or \<^verbatim>\<open>E\<close>, an optional sign
  and at least one digit.  The result is the exponent and the rest of the string; when
  no exponent part is there, the exponent is 0 and nothing is consumed.
\<close>

definition exponentPart :: "string \<Rightarrow> int \<times> string" where
  "exponentPart s =
     (case s of
        [] \<Rightarrow> (0, s)
      | c # r \<Rightarrow>
          if c = CHR ''e'' \<or> c = CHR ''E'' then
            (let neg = (r \<noteq> [] \<and> hd r = CHR ''-'');
                 r' = (if r \<noteq> [] \<and> (hd r = CHR ''+'' \<or> hd r = CHR ''-'') then tl r else r);
                 ds = takeWhile isDigit r'
             in if ds = [] then (0, s)
                else ((if neg then - int (digitsValue 10 ds) else int (digitsValue 10 ds)),
                      dropWhile isDigit r'))
          else (0, s))"

definition pow10 :: "int \<Rightarrow> rat" where
  "pow10 e = (if 0 \<le> e then 10 ^ nat e else 1 / 10 ^ nat (- e))"

text \<open>
  The longest prefix of a string that is a StrUnsignedDecimalLiteral (\<^verbatim>\<open>Infinity\<close>,
  digits with an optional fraction and exponent, or a fraction that starts with the
  dot), with its value and the rest of the string; \<open>None\<close> when no prefix is one.
\<close>

definition unsignedDecimal :: "string \<Rightarrow> (number \<times> string) option" where
  "unsignedDecimal s =
     (if take 8 s = ''Infinity'' then Some (PosInfinity, drop 8 s)
      else
        let ip = takeWhile isDigit s;
            r1 = dropWhile isDigit s;
            dot = (r1 \<noteq> [] \<and> hd r1 = CHR ''.'');
            fp = (if dot then takeWhile isDigit (tl r1) else []);
            r2 = (if dot then dropWhile isDigit (tl r1) else r1)
        in if ip = [] \<and> fp = [] then None
           else
             let (e, r3) = exponentPart r2;
                 mv = (of_nat (digitsValue 10 ip)
                        + of_nat (digitsValue 10 fp) / 10 ^ length fp) * pow10 e
             in Some (to_double mv, r3))"

text \<open>The same with an optional sign in front: the longest StrDecimalLiteral prefix.\<close>

definition decimalPrefix :: "string \<Rightarrow> (number \<times> string) option" where
  "decimalPrefix s =
     (case s of
        [] \<Rightarrow> None
      | c # r \<Rightarrow>
          if c = CHR ''-'' then map_option (\<lambda>(n, t). (negate n, t)) (unsignedDecimal r)
          else if c = CHR ''+'' then unsignedDecimal r
          else unsignedDecimal s)"

text \<open>\<^verbatim>\<open>parseFloat(s)\<close>: leading white space is skipped; no literal prefix gives NaN.\<close>

definition parseFloat :: "string \<Rightarrow> number" where
  "parseFloat s = (case decimalPrefix (trimStart s) of None \<Rightarrow> NaN | Some (n, _) \<Rightarrow> n)"

text \<open>
  \<^verbatim>\<open>parseInt(s)\<close> with no radix: leading white space is skipped, a sign is read, the
  prefix \<^verbatim>\<open>0x\<close> or \<^verbatim>\<open>0X\<close> selects radix 16 (radix 10 otherwise), and the longest run
  of digits of the radix is the integer; no digit gives NaN.
\<close>

definition parseInt :: "string \<Rightarrow> number" where
  "parseInt s =
     (let t = trimStart s;
          neg = (t \<noteq> [] \<and> hd t = CHR ''-'');
          t1 = (if t \<noteq> [] \<and> (hd t = CHR ''+'' \<or> hd t = CHR ''-'') then tl t else t);
          hex = (take 2 t1 = ''0x'' \<or> take 2 t1 = ''0X'');
          t2 = (if hex then drop 2 t1 else t1);
          z = (if hex then takeWhile isHexDigit t2 else takeWhile isDigit t2);
          n = to_double (of_nat (digitsValue (if hex then 16 else 10) z))
      in if z = [] then NaN else if neg then negate n else n)"

text \<open>
  A literal \<^verbatim>\<open>0x\<close>, \<^verbatim>\<open>0o\<close> or \<^verbatim>\<open>0b\<close> (either case) followed by digits of its radix
  only, and at least one.
\<close>

definition nonDecimalLiteral :: "string \<Rightarrow> number option" where
  "nonDecimalLiteral s =
     (let p = take 2 s; ds = drop 2 s in
      if (p = ''0x'' \<or> p = ''0X'') \<and> ds \<noteq> [] \<and> list_all isHexDigit ds
        then Some (to_double (of_nat (digitsValue 16 ds)))
      else if (p = ''0o'' \<or> p = ''0O'') \<and> ds \<noteq> []
              \<and> list_all (\<lambda>c. c \<in> set ''01234567'') ds
        then Some (to_double (of_nat (digitsValue 8 ds)))
      else if (p = ''0b'' \<or> p = ''0B'') \<and> ds \<noteq> []
              \<and> list_all (\<lambda>c. c = CHR ''0'' \<or> c = CHR ''1'') ds
        then Some (to_double (of_nat (digitsValue 2 ds)))
      else None)"

text \<open>
  ToNumber of a string, as the comparison \<^verbatim>\<open>quantity > 0\<close> applies it: white space
  is trimmed on both sides, the empty string is 0, and the whole rest must be one
  numeric literal, else the result is NaN.
\<close>

definition toNumber :: "string \<Rightarrow> number" where
  "toNumber s =
     (let t = trim s in
      if t = [] then Num 0
      else case nonDecimalLiteral t of
             Some n \<Rightarrow> n
           | None \<Rightarrow> (case decimalPrefix t of
                         Some (n, []) \<Rightarrow> n
                       | _ \<Rightarrow> NaN))"

text \<open>\<^verbatim>\<open>x > 0\<close> on numbers: false for NaN.\<close>

definition greaterThanZero :: "number \<Rightarrow> bool" where
  "greaterThanZero n = (case n of NaN \<Rightarrow> False | PosInfinity \<Rightarrow> True
                         | NegInfinity \<Rightarrow> False | Num q \<Rightarrow> 0 < q)"

section \<open>The API helper\<close>

text \<open>
  A rejected promise or a thrown exception carries an \<^verbatim>\<open>Error\<close>, kept by its message.
  \<^verbatim>\<open>fetch\<close> is the environment: it rejects (no answer from the network) or resolves to
  a response with its \<^verbatim>\<open>ok\<close> flag, its status text and what \<^verbatim>\<open>response.json()\<close>
  settles to (a rejection when the body is not JSON).
\<close>

datatype error = Error string

record response =
  ok :: bool
  statusText :: string
  json :: "error + jsval"

type_synonym fetch_result = "error + response"

text \<open>
  An asynchronous handler or effect is modelled as run to completion: \<^verbatim>\<open>fetch\<close> is a
  parameter that gives the answer of the back end to each request, and the result of the
  handler is the state and the effects once its promise has settled.
\<close>

text \<open>
  What \<^verbatim>\<open>fetch\<close> is called with: the endpoint (after the API prefix), the method
  (\<open>None\<close>: the default GET), the Authorization header and the body.  The body is the
  JSON value that the text written by \<^verbatim>\<open>JSON.stringify\<close> denotes.
\<close>

record request =
  endpoint :: string
  http_method :: "string option"
  authorization :: "string option"
  body :: "jsval option"

record options =
  opt_method :: "string option"
  opt_body :: "jsval option"

definition no_options :: options where
  "no_options = \<lparr>opt_method = None, opt_body = None\<rparr>"

text \<open>
  \<^verbatim>\<open>JSON.stringify\<close> of an object literal whose property values are primitives or come
  from a JSON payload: a property whose value is \<^verbatim>\<open>undefined\<close> is left out, and NaN and
  the infinities are written \<^verbatim>\<open>null\<close>.
\<close>

definition jsonValue :: "jsval \<Rightarrow> jsval" where
  "jsonValue v =
     (case v of
        Number NaN \<Rightarrow> Null
      | Number PosInfinity \<Rightarrow> Null
      | Number NegInfinity \<Rightarrow> Null
      | _ \<Rightarrow> v)"

definition JSON_stringify :: "(string \<times> jsval) list \<Rightarrow> jsval" where
  "JSON_stringify ps =
     Object (map (\<lambda>(k, v). (k, jsonValue v)) (filter (\<lambda>(k, v). v \<noteq> Undefined) ps))"

text \<open>
  \<^verbatim>\<open>apiCall(endpoint, options)\<close> (lines 95-112).  The bearer header is added when the
  stored token is truthy.  \<open>apiResult\<close> is the part after \<^verbatim>\<open>await fetch\<close>: a response
  that is not \<^verbatim>\<open>ok\<close> throws, any other settles as \<^verbatim>\<open>response.json()\<close> does.  The
  result is paired with the request that was passed to \<^verbatim>\<open>fetch\<close>, so that callers can
  record it.
\<close>

definition apiResult :: "fetch_result \<Rightarrow> error + jsval" where
  "apiResult r =
     (case r of
        Inl e \<Rightarrow> Inl e
      | Inr res \<Rightarrow>
          if \<not> ok res then Inl (Error (''API call failed: '' @ statusText res))
          else json res)"

definition apiCall ::
  "(request \<Rightarrow> fetch_result) \<Rightarrow> string option \<Rightarrow> string \<Rightarrow> options \<Rightarrow> request \<times> (error + jsval)"
where
  "apiCall fetch storedToken ep opts =
     (let req = \<lparr>endpoint = ep,
                 http_method = opt_method opts,
                 authorization = (case storedToken of
                                    None \<Rightarrow> None
                                  | Some t \<Rightarrow> if t \<noteq> [] then Some (''Bearer '' @ t) else None),
                 body = opt_body opts\<rparr>
      in (req, apiResult (fetch req)))"

section \<open>Commands of the product and RFQ lists\<close>

text \<open>
  What a handler does to the outside, in order: a request passed to \<^verbatim>\<open>fetch\<close>, an
  \<^verbatim>\<open>alert\<close> dialog, a \<^verbatim>\<open>console.error\<close> line, a page reload.
\<close>

datatype effect =
    Fetch request
  | Alert string
  | ConsoleError error
  | Reload

text \<open>\<^verbatim>\<open>prompt\<close> answers with a string, or with \<^verbatim>\<open>null\<close> (\<open>None\<close>) when it is dismissed.\<close>

definition orEmpty :: "string option \<Rightarrow> string" where
  "orEmpty a = (case a of None \<Rightarrow> [] | Some s \<Rightarrow> s)"

text \<open>
  \<^verbatim>\<open>createRFQ(productId)\<close> of ProductList (lines 425-445).  Both prompts are answered
  before the guard \<^verbatim>\<open>quantity && quantity > 0\<close> is evaluated on the first answer.
\<close>

definition createRFQ ::
  "(request \<Rightarrow> fetch_result) \<Rightarrow> string option \<Rightarrow> jsval \<Rightarrow> string option \<Rightarrow> string option \<Rightarrow> effect list"
where
  "createRFQ fetch storedToken productId quantityAnswer messageAnswer =
     (let message = orEmpty messageAnswer in
      case quantityAnswer of
        None \<Rightarrow> []
      | Some quantity \<Rightarrow>
          if quantity \<noteq> [] \<and> greaterThanZero (toNumber quantity) then
            (case apiCall fetch storedToken ''/rfqs''
                    \<lparr>opt_method = Some ''POST'',
                     opt_body = Some (JSON_stringify
                       [(''product_id'', productId),
                        (''quantity'', Number (parseInt quantity)),
                        (''message'', String message),
                        (''expires_in_days'', Number (Num 7))])\<rparr> of
               (req, Inr _) \<Rightarrow> [Fetch req, Alert ''RFQ created successfully!'']
             | (req, Inl (Error m)) \<Rightarrow> [Fetch req, Alert (''Failed to create RFQ: '' @ m)])
          else [])"

text \<open>
  \<^verbatim>\<open>submitQuote(rfqId)\<close> of RFQList (lines 507-530).  The three prompts are answered
  first; the guard is \<^verbatim>\<open>pricePerUnit && deliveryTime\<close>.
\<close>

definition submitQuote ::
  "(request \<Rightarrow> fetch_result) \<Rightarrow> string option \<Rightarrow> jsval \<Rightarrow> string option \<Rightarrow> string option
     \<Rightarrow> string option \<Rightarrow> effect list"
where
  "submitQuote fetch storedToken rfqId priceAnswer deliveryAnswer messageAnswer =
     (let message = orEmpty messageAnswer in
      case (priceAnswer, deliveryAnswer) of
        (Some pricePerUnit, Some deliveryTime) \<Rightarrow>
          if pricePerUnit \<noteq> [] \<and> deliveryTime \<noteq> [] then
            (case apiCall fetch storedToken ''/quotes''
                    \<lparr>opt_method = Some ''POST'',
                     opt_body = Some (JSON_stringify
                       [(''rfq_id'', rfqId),
                        (''price_per_unit'', Number (parseFloat pricePerUnit)),
                        (''delivery_time'', String deliveryTime),
                        (''message'', String message)])\<rparr> of
               (req, Inr _) \<Rightarrow> [Fetch req, Alert ''Quote submitted successfully!'', Reload]
             | (req, Inl (Error m)) \<Rightarrow> [Fetch req, Alert (''Failed to submit quote: '' @ m)])
          else []
      | _ \<Rightarrow> [])"


section \<open>What a component renders\<close>

text \<open>
  A render is the tree of what the JSX yields, without class names: literal text, the
  value of an embedded expression, a date written by \<^verbatim>\<open>toLocaleDateString\<close>, a button
  with its \<^verbatim>\<open>onClick\<close> handler (or, for a submit button, the form's \<^verbatim>\<open>onSubmit\<close>),
  a disabled button, an input with its placeholder and value, a select with its value
  and its options (value and label), and a container of children.  A render that throws
  is \<open>None\<close>: a property read on \<^verbatim>\<open>null\<close> or \<^verbatim>\<open>undefined\<close>, \<^verbatim>\<open>map\<close> or \<^verbatim>\<open>find\<close> on a
  value that is not an array, or an object as the value of an embedded expression
  (React refuses it: objects are not valid as a React child), make the whole tree fail.
\<close>

datatype action =
    Logout
  | SetCurrentView string
  | CreateRFQ jsval
  | SubmitQuote jsval
  | SubmitLogin
  | SubmitRegister
  | SetShowRegister bool
  | ReloadPage

datatype element =
    Text string
  | Expr jsval
  | DateText jsval
  | Button action string
  | DisabledButton string
  | Input string jsval
  | Select jsval "(string \<times> string) list"
  | Elem "element list"

text \<open>The handlers of the buttons a render offers.\<close>

fun buttons :: "element \<Rightarrow> action list" where
  "buttons (Button a l) = [a]"
| "buttons (Elem es) = concat (map buttons es)"
| "buttons _ = []"

text \<open>
  The values React accepts as the child \<^verbatim>\<open>{v}\<close>: strings and numbers are written as
  text; \<^verbatim>\<open>undefined\<close>, \<^verbatim>\<open>null\<close> and booleans are written as nothing; the elements of
  an array are children in turn; an object of a JSON payload is refused.
\<close>

fun renderable :: "jsval \<Rightarrow> bool" where
  "renderable (Object ps) = False"
| "renderable (Array xs) = list_all renderable xs"
| "renderable v = True"

definition child :: "jsval \<Rightarrow> element option" where
  "child v = (if renderable v then Some (Expr v) else None)"

text \<open>
  \<^verbatim>\<open>a === b\<close> on values of JSON payloads and string literals.  Two objects or arrays
  of a payload are never the same reference.
\<close>

definition strictEq :: "jsval \<Rightarrow> jsval \<Rightarrow> bool" where
  "strictEq a b =
     (case a of
        Undefined \<Rightarrow> b = Undefined
      | Null \<Rightarrow> b = Null
      | Boolean x \<Rightarrow> b = Boolean x
      | Number n \<Rightarrow> n \<noteq> NaN \<and> b = Number n
      | String x \<Rightarrow> b = String x
      | Array _ \<Rightarrow> False
      | Object _ \<Rightarrow> False)"

text \<open>Calling \<^verbatim>\<open>map\<close> or \<^verbatim>\<open>find\<close> on a value: a TypeError unless it is an array.\<close>

definition asArray :: "jsval \<Rightarrow> jsval list option" where
  "asArray v = (case v of Array xs \<Rightarrow> Some xs | _ \<Rightarrow> None)"

text \<open>\<^verbatim>\<open>xs.find(c => c.id === owner.k)\<close>: the first match, \<^verbatim>\<open>undefined\<close> when none.\<close>

fun findById :: "jsval list \<Rightarrow> jsval \<Rightarrow> string \<Rightarrow> jsval option" where
  "findById [] owner k = Some Undefined"
| "findById (c # cs) owner k =
     do { i \<leftarrow> getProp c ''id'';
          r \<leftarrow> getProp owner k;
          if strictEq i r then Some c else findById cs owner k }"

text \<open>\<^verbatim>\<open>x?.name || fallback\<close>.\<close>

definition nameOr :: "jsval \<Rightarrow> string \<Rightarrow> jsval" where
  "nameOr x fallback =
     js_or (case getProp x ''name'' of None \<Rightarrow> Undefined | Some n \<Rightarrow> n) (String fallback)"

subsection \<open>Component state\<close>

record loadable =
  loading :: bool

record dashboard_state = loadable +
  stats :: jsval

record listing = loadable +
  products :: jsval

record productList_state = listing +
  categories :: jsval

record rfqList_state = listing +
  rfqs :: jsval

definition initialDashboard :: dashboard_state where
  "initialDashboard = \<lparr>loading = True, stats = Object []\<rparr>"

definition initialProductList :: productList_state where
  "initialProductList = \<lparr>loading = True, products = Array [], categories = Array []\<rparr>"

definition initialRFQList :: rfqList_state where
  "initialRFQList = \<lparr>loading = True, products = Array [], rfqs = Array []\<rparr>"

subsection \<open>Dashboard (lines 332-404)\<close>


text \<open>\<^verbatim>\<open>stats.k || 0\<close>.\<close>

definition counter :: "jsval \<Rightarrow> string \<Rightarrow> jsval option" where
  "counter st k = map_option (\<lambda>v. js_or v (Number (Num 0))) (getProp st k)"

definition statCard :: "string \<Rightarrow> jsval \<Rightarrow> element option" where
  "statCard title v = map_option (\<lambda>c. Elem [Text title, c]) (child v)"

text \<open>The cards of one role: titles and the counters they show.\<close>

definition adminCounters :: "(string \<times> string) list" where
  "adminCounters =
     [(''Total Users'', ''total_users''),
      (''Total Products'', ''total_products''),
      (''Total Orders'', ''total_orders'')]"

definition supplierCounters :: "(string \<times> string) list" where
  "supplierCounters =
     [(''My Products'', ''my_products''),
      (''My Orders'', ''my_orders''),
      (''Pending RFQs'', ''pending_rfqs'')]"

definition buyerCounters :: "(string \<times> string) list" where
  "buyerCounters =
     [(''My RFQs'', ''my_rfqs''),
      (''My Orders'', ''my_orders'')]"

definition cards :: "jsval \<Rightarrow> (string \<times> string) list \<Rightarrow> element list option" where
  "cards st cs = those (map (\<lambda>(title, k). Option.bind (counter st k) (statCard title)) cs)"

definition roleCards :: "jsval \<Rightarrow> string \<Rightarrow> jsval \<Rightarrow> (string \<times> string) list \<Rightarrow> element list option" where
  "roleCards r name st cs = (if strictEq r (String name) then cards st cs else Some [])"


definition Dashboard :: "jsval \<Rightarrow> dashboard_state \<Rightarrow> element option" where
  "Dashboard user st =
     (if loading st then Some (Elem [Text ''Loading dashboard...''])
      else
        do { contact \<leftarrow> getProp user ''contact_person'';
             welcome \<leftarrow> child contact;
             r \<leftarrow> getProp user ''role'';
             a \<leftarrow> roleCards r ''admin'' (stats st) adminCounters;
             s \<leftarrow> roleCards r ''supplier'' (stats st) supplierCounters;
             b \<leftarrow> roleCards r ''buyer'' (stats st) buyerCounters;
             Some (Elem [Elem [Text ''Welcome, '', welcome], Elem (a @ s @ b)]) })"

subsection \<open>ProductList (lines 406-486)\<close>


definition productCard :: "jsval \<Rightarrow> jsval \<Rightarrow> jsval \<Rightarrow> element option" where
  "productCard user cats product =
     do { cs \<leftarrow> asArray cats;
          category \<leftarrow> findById cs product ''category_id'';
          name \<leftarrow> getProp product ''name'';
          description \<leftarrow> getProp product ''description'';
          price \<leftarrow> getProp product ''price'';
          stock \<leftarrow> getProp product ''stock_quantity'';
          minOrder \<leftarrow> getProp product ''min_order_quantity'';
          r \<leftarrow> getProp user ''role'';
          pid \<leftarrow> getProp product ''id'';
          cName \<leftarrow> child name;
          cDescription \<leftarrow> child description;
          cCategory \<leftarrow> child (nameOr category ''Unknown'');
          cPrice \<leftarrow> child price;
          cStock \<leftarrow> child stock;
          cMinOrder \<leftarrow> child minOrder;
          Some (Elem
            ([cName, cDescription,
              Elem [Text ''Category: '', cCategory],
              Elem [Text ''$'', cPrice, Text ''/unit''],
              Elem [Text ''Stock: '', cStock, Text '' | Min Order: '', cMinOrder]]
             @ (if strictEq r (String ''buyer'')
                then [Button (CreateRFQ pid) ''Request Quote'']
                else [])))
        }"

definition ProductList :: "jsval \<Rightarrow> productList_state \<Rightarrow> element option" where
  "ProductList user st =
     (if loading st then Some (Elem [Text ''Loading products...''])
      else
        do { ps \<leftarrow> asArray (products st);
             cs \<leftarrow> those (map (productCard user (categories st)) ps);
             Some (Elem [Text ''Products'', Elem cs]) })"

subsection \<open>RFQList (lines 488-584)\<close>


definition rfqCard :: "jsval \<Rightarrow> jsval \<Rightarrow> jsval \<Rightarrow> element option" where
  "rfqCard user prods rfq =
     do { ps \<leftarrow> asArray prods;
          product \<leftarrow> findById ps rfq ''product_id'';
          quantity \<leftarrow> getProp rfq ''quantity'';
          expires \<leftarrow> getProp rfq ''expires_at'';
          status \<leftarrow> getProp rfq ''status'';
          message \<leftarrow> getProp rfq ''message'';
          r \<leftarrow> getProp user ''role'';
          rid \<leftarrow> getProp rfq ''id'';
          cProduct \<leftarrow> child (nameOr product ''Product Not Found'');
          cQuantity \<leftarrow> child quantity;
          cStatus \<leftarrow> child status;
          cMessage \<leftarrow> child message;
          Some (Elem
            ([cProduct,
              Elem [Text ''Quantity: '', cQuantity],
              Elem [Text ''Expires: '', DateText expires],
              cStatus,
              (if truthy message then Elem [Text ''Message: '', cMessage] else cMessage)]
             @ (if strictEq r (String ''supplier'') \<and> strictEq status (String ''open'')
                then [Button (SubmitQuote rid) ''Submit Quote'']
                else [])))
        }"

definition RFQList :: "jsval \<Rightarrow> rfqList_state \<Rightarrow> element option" where
  "RFQList user st =
     (if loading st then Some (Elem [Text ''Loading RFQs...''])
      else
        do { r \<leftarrow> getProp user ''role'';
             rs \<leftarrow> asArray (rfqs st);
             cs \<leftarrow> those (map (rfqCard user (products st)) rs);
             Some (Elem [Text (if strictEq r (String ''buyer'') then ''My RFQs'' else ''Available RFQs''),
                         Elem cs]) })"

subsection \<open>Navigation (lines 586-639)\<close>

record nav_item =
  key :: string
  label :: string
  roles :: "string list"

definition navItems :: "nav_item list" where
  "navItems =
     [\<lparr>key = ''dashboard'', label = ''Dashboard'', roles = [''admin'', ''supplier'', ''buyer'']\<rparr>,
      \<lparr>key = ''products'', label = ''Products'', roles = [''admin'', ''supplier'', ''buyer'']\<rparr>,
      \<lparr>key = ''rfqs'', label = ''RFQs'', roles = [''supplier'', ''buyer'']\<rparr>,
      \<lparr>key = ''orders'', label = ''Orders'', roles = [''admin'', ''supplier'', ''buyer'']\<rparr>]"

text \<open>\<^verbatim>\<open>xs.includes(v)\<close> on an array of strings.\<close>

definition arrayIncludes :: "string list \<Rightarrow> jsval \<Rightarrow> bool" where
  "arrayIncludes xs v = (case v of String x \<Rightarrow> x \<in> set xs | _ \<Rightarrow> False)"

definition filteredNavItems :: "jsval \<Rightarrow> nav_item list option" where
  "filteredNavItems user =
     do { r \<leftarrow> getProp user ''role'';
          Some (filter (\<lambda>item. arrayIncludes (roles item) r) navItems) }"

text \<open>The components \<^verbatim>\<open>renderContent\<close> can return, and its \<^verbatim>\<open>switch\<close>.\<close>

datatype component = DashboardComponent | ProductListComponent | RFQListComponent

definition renderContent :: "string \<Rightarrow> component" where
  "renderContent currentView =
     (if currentView = ''dashboard'' then DashboardComponent
      else if currentView = ''products'' then ProductListComponent
      else if currentView = ''rfqs'' then RFQListComponent
      else DashboardComponent)"

text \<open>
  The state of Navigation: \<^verbatim>\<open>currentView\<close> and the state of the mounted child (only
  the one \<^verbatim>\<open>renderContent\<close> selects is read).
\<close>

record nav_state =
  currentView :: string
  dashboard :: dashboard_state
  productList :: productList_state
  rfqList :: rfqList_state

definition initialNav :: nav_state where
  "initialNav = \<lparr>currentView = ''dashboard'', dashboard = initialDashboard,
                  productList = initialProductList, rfqList = initialRFQList\<rparr>"

definition renderComponent :: "jsval \<Rightarrow> nav_state \<Rightarrow> component \<Rightarrow> element option" where
  "renderComponent user st c =
     (case c of
        DashboardComponent \<Rightarrow> Dashboard user (dashboard st)
      | ProductListComponent \<Rightarrow> ProductList user (productList st)
      | RFQListComponent \<Rightarrow> RFQList user (rfqList st))"

definition Navigation :: "jsval \<Rightarrow> nav_state \<Rightarrow> element option" where
  "Navigation user st =
     do { items \<leftarrow> filteredNavItems user;
          content \<leftarrow> renderComponent user st (renderContent (currentView st));
          Some (Elem
            [Elem (Text ''Navigation''
                   # map (\<lambda>item. Button (SetCurrentView (key item)) (label item)) items),
             content]) }"


section \<open>Authentication (lines 18-92)\<close>

record auth_state = loadable +
  user :: jsval
  token :: "string option"
  localStorage :: "string option"

text \<open>The state on page load: \<^verbatim>\<open>token\<close> is read from the storage.\<close>

definition initialAuth :: "string option \<Rightarrow> auth_state" where
  "initialAuth stored = \<lparr>loading = True, user = Null, token = stored, localStorage = stored\<rparr>"

text \<open>\<^verbatim>\<open>localStorage.removeItem('token'); setToken(null)\<close>.\<close>

definition dropToken :: "auth_state \<Rightarrow> auth_state" where
  "dropToken st = st\<lparr>localStorage := None, token := None\<rparr>"

text \<open>
  The effect on \<^verbatim>\<open>token\<close> (lines 23-45).  The \<^verbatim>\<open>ok\<close> flag of the answer is not read;
  a \<^verbatim>\<open>data.id\<close> that throws is caught by the same \<^verbatim>\<open>catch\<close> as a rejection.
\<close>

definition tokenEffect :: "(request \<Rightarrow> fetch_result) \<Rightarrow> auth_state \<Rightarrow> auth_state" where
  "tokenEffect fetch st =
     (case token st of
        None \<Rightarrow> st\<lparr>loading := False\<rparr>
      | Some t \<Rightarrow>
          if t = [] then st\<lparr>loading := False\<rparr>
          else
            (case fetch \<lparr>endpoint = ''/me'', http_method = None,
                         authorization = Some (''Bearer '' @ t), body = None\<rparr> of
               Inl e \<Rightarrow> dropToken st
             | Inr res \<Rightarrow>
                 (case json res of
                    Inl e \<Rightarrow> dropToken st
                  | Inr data \<Rightarrow>
                      (case getProp data ''id'' of
                         None \<Rightarrow> dropToken st
                       | Some i \<Rightarrow> if truthy i then st\<lparr>user := data\<rparr> else dropToken st)))
            \<lparr>loading := False\<rparr>)"

text \<open>
  The effect has \<^verbatim>\<open>[token]\<close> as its dependencies: it runs after the first render and
  after every render in which \<^verbatim>\<open>token\<close> has changed, so also after its own
  \<^verbatim>\<open>setToken(null)\<close>.
\<close>

definition runTokenEffect :: "(request \<Rightarrow> fetch_result) \<Rightarrow> auth_state \<Rightarrow> auth_state" where
  "runTokenEffect fetch st =
     (let st1 = tokenEffect fetch st
      in if token st1 \<noteq> token st then tokenEffect fetch st1 else st1)"

definition mount :: "(request \<Rightarrow> fetch_result) \<Rightarrow> string option \<Rightarrow> auth_state" where
  "mount fetch stored = runTokenEffect fetch (initialAuth stored)"

text \<open>
  What \<^verbatim>\<open>login\<close> and \<^verbatim>\<open>register\<close> settle to: a rejection (of \<^verbatim>\<open>fetch\<close>, of
  \<^verbatim>\<open>response.json()\<close>, or a TypeError of a property read), \<^verbatim>\<open>{success: true}\<close>, or
  \<^verbatim>\<open>{success: false, error}\<close>.
\<close>

datatype auth_result = Threw error | Success | Failure jsval

definition typeError :: error where
  "typeError = Error ''TypeError''"

text \<open>
  \<^verbatim>\<open>login(email, password)\<close> (lines 47-64).  The model covers the answers whose
  \<^verbatim>\<open>access_token\<close> is a string, as the storage keeps strings; on any other answer the
  result is \<open>None\<close>.
\<close>

definition login ::
  "(request \<Rightarrow> fetch_result) \<Rightarrow> string \<Rightarrow> string \<Rightarrow> auth_state \<Rightarrow> (auth_state \<times> auth_result) option"
where
  "login fetch email password st =
     (case fetch \<lparr>endpoint = ''/login'', http_method = Some ''POST'', authorization = None,
                  body = Some (JSON_stringify [(''email'', String email),
                                               (''password'', String password)])\<rparr> of
        Inl e \<Rightarrow> Some (st, Threw e)
      | Inr res \<Rightarrow>
          if ok res then
            (case json res of
               Inl e \<Rightarrow> Some (st, Threw e)
             | Inr data \<Rightarrow>
                 (case (getProp data ''access_token'', getProp data ''user'') of
                    (Some (String t), Some u) \<Rightarrow>
                      Some (st\<lparr>token := Some t, user := u, localStorage := Some t\<rparr>, Success)
                  | (None, _) \<Rightarrow> Some (st, Threw typeError)
                  | _ \<Rightarrow> None))
          else
            (case json res of
               Inl e \<Rightarrow> Some (st, Threw e)
             | Inr err \<Rightarrow>
                 (case getProp err ''detail'' of
                    None \<Rightarrow> Some (st, Threw typeError)
                  | Some d \<Rightarrow> Some (st, Failure d))))"

text \<open>A login followed by the effect that the change of \<^verbatim>\<open>token\<close> triggers.\<close>

definition loginAndSettle ::
  "(request \<Rightarrow> fetch_result) \<Rightarrow> string \<Rightarrow> string \<Rightarrow> auth_state \<Rightarrow> auth_state option"
where
  "loginAndSettle fetch email password st =
     map_option
       (\<lambda>(st1, r). if token st1 \<noteq> token st then runTokenEffect fetch st1 else st1)
       (login fetch email password st)"

definition logout :: "auth_state \<Rightarrow> auth_state" where
  "logout st = st\<lparr>user := Null, token := None, localStorage := None\<rparr>"

text \<open>\<^verbatim>\<open>register(userData)\<close> (lines 66-79), with the request it sends.\<close>

definition register ::
  "(request \<Rightarrow> fetch_result) \<Rightarrow> (string \<times> jsval) list \<Rightarrow> request \<times> auth_result"
where
  "register fetch userData =
     (let req = \<lparr>endpoint = ''/register'', http_method = Some ''POST'', authorization = None,
                 body = Some (JSON_stringify userData)\<rparr>
      in (req,
          case fetch req of
            Inl e \<Rightarrow> Threw e
          | Inr res \<Rightarrow>
              if ok res then Success
              else
                (case json res of
                   Inl e \<Rightarrow> Threw e
                 | Inr err \<Rightarrow>
                     (case getProp err ''detail'' of
                        None \<Rightarrow> Threw typeError
                      | Some d \<Rightarrow> Failure d))))"

section \<open>Forms and the top-level view\<close>

record form_state = loadable +
  error :: jsval

record loginForm_state = form_state +
  email :: string
  password :: string

record registerForm_state = form_state +
  formData :: "(string \<times> jsval) list"
  success :: bool

text \<open>Header (lines 115-138).\<close>

definition Header :: "jsval \<Rightarrow> element option" where
  "Header u =
     (if truthy u then
        do { company \<leftarrow> getProp u ''company_name'';
             r \<leftarrow> getProp u ''role'';
             cCompany \<leftarrow> child company;
             cRole \<leftarrow> child r;
             Some (Elem [Text ''B2B Commerce'',
                         Elem [Elem [cCompany, Text '' ('', cRole, Text '')''],
                               Button Logout ''Logout'']]) }
      else Some (Elem [Text ''B2B Commerce'', Expr u]))"

text \<open>A submit button with \<^verbatim>\<open>disabled={loading}\<close> and the two labels.\<close>

definition submitButton :: "bool \<Rightarrow> action \<Rightarrow> string \<Rightarrow> string \<Rightarrow> element" where
  "submitButton busy a busyLabel idleLabel =
     (if busy then DisabledButton busyLabel else Button a idleLabel)"

text \<open>\<^verbatim>\<open>{error && (<div>{error}</div>)}\<close>.\<close>

definition errorLine :: "jsval \<Rightarrow> element option" where
  "errorLine e = map_option (\<lambda>c. if truthy e then Elem [c] else c) (child e)"

text \<open>LoginForm (lines 140-208).\<close>

definition LoginForm :: "loginForm_state \<Rightarrow> element option" where
  "LoginForm st =
     do { e \<leftarrow> errorLine (error st);
          Some (Elem [Text ''Sign in to your account'',
                      Input ''Email address'' (String (email st)),
                      Input ''Password'' (String (password st)),
                      e,
                      submitButton (loading st) SubmitLogin ''Signing in...'' ''Sign in'']) }"

text \<open>RegisterForm (lines 210-330): the initial form data and the options of the role select.\<close>

definition initialFormData :: "(string \<times> jsval) list" where
  "initialFormData =
     [(''email'', String []),
      (''password'', String []),
      (''company_name'', String []),
      (''contact_person'', String []),
      (''phone'', String []),
      (''role'', String ''buyer'')]"

definition initialRegisterForm :: registerForm_state where
  "initialRegisterForm =
     \<lparr>loading = False, error = String [], formData = initialFormData, success = False\<rparr>"

definition roleOptions :: "(string \<times> string) list" where
  "roleOptions = [(''buyer'', ''Buyer''), (''supplier'', ''Supplier'')]"

definition inputFields :: "(string \<times> string) list" where
  "inputFields =
     [(''email'', ''Email address''),
      (''password'', ''Password''),
      (''company_name'', ''Company Name''),
      (''contact_person'', ''Contact Person''),
      (''phone'', ''Phone Number'')]"

text \<open>\<^verbatim>\<open>formData.k\<close>.\<close>

definition formValue :: "(string \<times> jsval) list \<Rightarrow> string \<Rightarrow> jsval" where
  "formValue fd k = (case map_of fd k of None \<Rightarrow> Undefined | Some v \<Rightarrow> v)"

definition RegisterForm :: "registerForm_state \<Rightarrow> element option" where
  "RegisterForm st =
     (if success st then
        Some (Elem [Text ''Registration Successful!'',
                    Text ''Your account has been created. You can now sign in.'',
                    Button ReloadPage ''Go to Login''])
      else
        do { e \<leftarrow> errorLine (error st);
             Some (Elem
               ([Text ''Create your account'']
                @ map (\<lambda>(k, placeholder). Input placeholder (formValue (formData st) k))
                    inputFields
                @ [Select (formValue (formData st) ''role'') roleOptions,
                   e,
                   submitButton (loading st) SubmitRegister
                     ''Creating account...'' ''Create account''])) })"

text \<open>
  A change handler: \<^verbatim>\<open>setFormData({...formData, k: e.target.value})\<close>.  The spread
  keeps the properties in place and overrides \<^verbatim>\<open>k\<close>.
\<close>

definition onChange :: "string \<Rightarrow> string \<Rightarrow> (string \<times> jsval) list \<Rightarrow> (string \<times> jsval) list" where
  "onChange k v fd = AList.update k (String v) fd"

text \<open>
  The form data a user can bring about: the initial data, then changes of the inputs to
  any text and changes of the select to the value of one of its options.
\<close>

inductive formReachable :: "(string \<times> jsval) list \<Rightarrow> bool" where
  initialForm: "formReachable initialFormData"
| input: "formReachable fd \<Longrightarrow> k \<in> fst ` set inputFields \<Longrightarrow> formReachable (onChange k v fd)"
| select: "formReachable fd \<Longrightarrow> v \<in> fst ` set roleOptions \<Longrightarrow> formReachable (onChange ''role'' v fd)"

text \<open>
  \<^verbatim>\<open>handleSubmit\<close> of RegisterForm (lines 224-236).  When \<^verbatim>\<open>register\<close> rejects, the
  handler stops at the \<^verbatim>\<open>await\<close> and \<^verbatim>\<open>loading\<close> stays set.
\<close>

definition handleRegister ::
  "(request \<Rightarrow> fetch_result) \<Rightarrow> registerForm_state \<Rightarrow> registerForm_state \<times> effect list"
where
  "handleRegister fetch st =
     (let st1 = st\<lparr>loading := True, error := String []\<rparr>
      in case register fetch (formData st) of
           (req, Success) \<Rightarrow> (st1\<lparr>success := True, loading := False\<rparr>, [Fetch req])
         | (req, Failure d) \<Rightarrow> (st1\<lparr>error := d, loading := False\<rparr>, [Fetch req])
         | (req, Threw e) \<Rightarrow> (st1, [Fetch req]))"

text \<open>MainApp (lines 641-691) below AuthProvider.\<close>

record app_state =
  auth :: auth_state
  showRegister :: bool
  nav :: nav_state
  loginForm :: loginForm_state
  registerForm :: registerForm_state

definition MainApp :: "app_state \<Rightarrow> element option" where
  "MainApp st =
     (if loading (auth st) then Some (Elem [Text ''Loading...''])
      else if truthy (user (auth st)) then
        do { h \<leftarrow> Header (user (auth st));
             n \<leftarrow> Navigation (user (auth st)) (nav st);
             Some (Elem [h, n]) }
      else if showRegister st then
        do { f \<leftarrow> RegisterForm (registerForm st);
             Some (Elem [f, Button (SetShowRegister False)
                              ''Already have an account? Sign in'']) }
      else
        do { f \<leftarrow> LoginForm (loginForm st);
             Some (Elem [f, Button (SetShowRegister True)
                              ''Don't have an account? Register'']) })"

section \<open>Example environments\<close>

text \<open>A back end that accepts every request, and one that answers every request with 500.\<close>

definition acceptAll :: "request \<Rightarrow> fetch_result" where
  "acceptAll req = Inr \<lparr>ok = True, statusText = ''OK'', json = Inr (Object [])\<rparr>"


text \<open>A user payload of the identity provider.\<close>

definition exampleUser :: "string \<Rightarrow> jsval" where
  "exampleUser r =
     Object [(''id'', String ''u1''), (''role'', String r),
             (''company_name'', String ''ACME''), (''contact_person'', String ''Ann'')]"

text \<open>
  A back end whose login succeeds with a token and a buyer, and whose \<^verbatim>\<open>/me\<close> lookup
  then fails (the answer carries no \<^verbatim>\<open>id\<close>).
\<close>

definition loginThenInvalid :: "request \<Rightarrow> fetch_result" where
  "loginThenInvalid req =
     (if endpoint req = ''/login'' then
        Inr \<lparr>ok = True, statusText = ''OK'',
             json = Inr (Object [(''access_token'', String ''tok''),
                                 (''user'', exampleUser ''buyer'')])\<rparr>
      else
        Inr \<lparr>ok = False, statusText = ''Unauthorized'',
             json = Inr (Object [(''detail'', String ''Invalid token'')])\<rparr>)"


text \<open>Payloads of the listing endpoints: one product, one category, one open RFQ.\<close>

definition exampleProducts :: jsval where
  "exampleProducts =
     Array [Object [(''id'', String ''p1''), (''name'', String ''Bolt''),
                    (''description'', String ''M8''), (''category_id'', String ''c1''),
                    (''price'', Number (Num 2)), (''stock_quantity'', Number (Num 100)),
                    (''min_order_quantity'', Number (Num 10))]]"

definition exampleCategories :: jsval where
  "exampleCategories = Array [Object [(''id'', String ''c1''), (''name'', String ''Hardware'')]]"

definition exampleRFQs :: jsval where
  "exampleRFQs =
     Array [Object [(''id'', String ''r1''), (''product_id'', String ''p1''),
                    (''quantity'', Number (Num 10)), (''expires_at'', String ''2026-01-01''),
                    (''status'', String ''open''), (''message'', String ''asap'')]]"

definition loadedRFQList :: rfqList_state where
  "loadedRFQList = \<lparr>loading = False, products = exampleProducts, rfqs = exampleRFQs\<rparr>"

definition loadedProductList :: productList_state where
  "loadedProductList =
     \<lparr>loading = False, products = exampleProducts, categories = exampleCategories\<rparr>"

text \<open>The application with a given authentication state and navigation state.\<close>

definition initialLoginForm :: loginForm_state where
  "initialLoginForm = \<lparr>loading = False, error = String [], email = [], password = []\<rparr>"

definition appWith :: "auth_state \<Rightarrow> nav_state \<Rightarrow> app_state" where
  "appWith a n = \<lparr>auth = a, showRegister = False, nav = n,
                  loginForm = initialLoginForm, registerForm = initialRegisterForm\<rparr>"

definition signedIn :: "string \<Rightarrow> auth_state" where
  "signedIn r = \<lparr>loading = False, user = exampleUser r, token = Some ''tok'',
                 localStorage = Some ''tok''\<rparr>"

text \<open>A buyer on the product list, and a supplier on the RFQ list.\<close>

definition buyerOnProducts :: app_state where
  "buyerOnProducts =
     appWith (signedIn ''buyer'')
       (initialNav\<lparr>currentView := ''products'', productList := loadedProductList\<rparr>)"

definition supplierOnRFQs :: app_state where
  "supplierOnRFQs =
     appWith (signedIn ''supplier'')
       (initialNav\<lparr>currentView := ''rfqs'', rfqList := loadedRFQList\<rparr>)"

text \<open>The register form after typing an e-mail address and selecting Supplier.\<close>

definition filledRegisterForm :: registerForm_state where
  "filledRegisterForm =
     initialRegisterForm
       \<lparr>formData := onChange ''role'' ''supplier''
                       (onChange ''email'' ''ann@acme.test'' initialFormData)\<rparr>"

text \<open>
  A back end whose \<^verbatim>\<open>/rfqs\<close> answer is 404 and whose every other answer is 500, and one
  that answers every request with an empty array.
\<close>

definition failBoth :: "request \<Rightarrow> fetch_result" where
  "failBoth req =
     (if endpoint req = ''/rfqs'' then
        Inr \<lparr>ok = False, statusText = ''Not Found'',
             json = Inr (Object [(''detail'', String ''Not Found'')])\<rparr>
      else
        Inr \<lparr>ok = False, statusText = ''Internal Server Error'',
             json = Inr (Object [(''detail'', String ''error'')])\<rparr>)"


section \<open>Basic facts\<close>

lemma those_eq_Some: "those xs = Some ys \<longleftrightarrow> xs = map Some ys"
  by (induction xs arbitrary: ys) (auto split: option.splits)

lemma those_member:
  assumes "those (map f xs) = Some ys" and "y \<in> set ys"
  shows "\<exists>x \<in> set xs. f x = Some y"
proof -
  from assms(1) have "map f xs = map Some ys" by (simp add: those_eq_Some)
  then have "Some y \<in> set (map f xs)" using assms(2) by simp
  then show ?thesis by auto
qed

lemma strictEq_String [simp]: "strictEq a (String x) \<longleftrightarrow> a = String x"
  by (cases a) (auto simp: strictEq_def)



lemma getProp_JSON_stringify:
  "getProp (JSON_stringify ps) k =
     Some (case map_of (filter (\<lambda>(k, v). v \<noteq> Undefined) ps) k of
             None \<Rightarrow> Undefined | Some v \<Rightarrow> jsonValue v)"
  by (induction ps) (auto simp: JSON_stringify_def split: option.splits)

lemma fst_apiCall:
  "fst (apiCall fetch storedToken ep opts) =
     \<lparr>endpoint = ep, http_method = opt_method opts,
      authorization = (case storedToken of None \<Rightarrow> None
                       | Some t \<Rightarrow> if t \<noteq> [] then Some (''Bearer '' @ t) else None),
      body = opt_body opts\<rparr>"
  by (simp add: apiCall_def Let_def)


lemma to_double_0: "to_double 0 = Num 0"
  by (simp add: to_double_def)

lemma to_double_5: "to_double 5 = Num 5"
  by (simp add: to_double_def)

lemma to_double_half: "to_double (1 / 2) = Num (1 / 2)"
  by (simp add: to_double_def)

lemmas parse_defs = toNumber_def trim_def trimStart_def nonDecimalLiteral_def decimalPrefix_def
  unsignedDecimal_def exponentPart_def pow10_def digitsValue_def digitValue_def isDigit_def
  isHexDigit_def isWhiteSpace_def parseInt_def parseFloat_def negate_def

lemma toNumber_half: "toNumber ''0.5'' = Num (1 / 2)"
  by (simp add: parse_defs to_double_half Let_def)

lemma parseInt_half: "parseInt ''0.5'' = Num 0"
  by (simp add: parse_defs to_double_0 Let_def)

lemma parseFloat_minus5: "parseFloat ''-5'' = Num (- 5)"
  by (simp add: parse_defs to_double_5 Let_def)


lemma toNumber_5: "toNumber ''5'' = Num 5"
  by (simp add: parse_defs to_double_5 Let_def)

lemma parseInt_5: "parseInt ''5'' = Num 5"
  by (simp add: parse_defs to_double_5 Let_def)

lemmas command_defs = createRFQ_def submitQuote_def apiCall_def apiResult_def
  JSON_stringify_def jsonValue_def orEmpty_def greaterThanZero_def no_options_def

section \<open>RFQ creation\<close>

lemma createRFQ_5:
  "createRFQ acceptAll (Some ''tok'') (String ''p1'') (Some ''5'') None =
     [Fetch \<lparr>endpoint = ''/rfqs'', http_method = Some ''POST'',
             authorization = Some ''Bearer tok'',
             body = Some (Object [(''product_id'', String ''p1''),
                                  (''quantity'', Number (Num 5)),
                                  (''message'', String []),
                                  (''expires_in_days'', Number (Num 7))])\<rparr>,
      Alert ''RFQ created successfully!'']"
  by (simp add: command_defs acceptAll_def toNumber_5 parseInt_5)

lemma createRFQ_fetched:
  assumes "Fetch req \<in> set (createRFQ fetch storedToken productId quantityAnswer messageAnswer)"
  obtains quantity where "quantityAnswer = Some quantity"
    and "quantity \<noteq> []" and "greaterThanZero (toNumber quantity)"
    and "req = fst (apiCall fetch storedToken ''/rfqs''
                    \<lparr>opt_method = Some ''POST'',
                     opt_body = Some (JSON_stringify
                       [(''product_id'', productId),
                        (''quantity'', Number (parseInt quantity)),
                        (''message'', String (orEmpty messageAnswer)),
                        (''expires_in_days'', Number (Num 7))])\<rparr>)"
proof (cases quantityAnswer)
  case None
  with assms show ?thesis by (simp add: createRFQ_def)
next
  case (Some quantity)
  show ?thesis
  proof (cases "quantity \<noteq> [] \<and> greaterThanZero (toNumber quantity)")
    case False
    with assms Some show ?thesis by (simp add: createRFQ_def)
  next
    case True
    with assms Some have "req = fst (apiCall fetch storedToken ''/rfqs''
                    \<lparr>opt_method = Some ''POST'',
                     opt_body = Some (JSON_stringify
                       [(''product_id'', productId),
                        (''quantity'', Number (parseInt quantity)),
                        (''message'', String (orEmpty messageAnswer)),
                        (''expires_in_days'', Number (Num 7))])\<rparr>)"
      by (auto simp: createRFQ_def Let_def case_prod_beta split: sum.splits error.splits)
    with Some True that show ?thesis by blast
  qed
qed

text \<open>
  C4.  The claim: a creation request is issued only when the quantity that is sent is
  an integer greater than 0.  The guard of \<^verbatim>\<open>createRFQ\<close> compares the number that the
  answer denotes (\<^verbatim>\<open>quantity > 0\<close>), and the request carries \<^verbatim>\<open>parseInt(quantity)\<close>.
  For the answer \<^verbatim>\<open>0.5\<close> the guard holds (0.5 is greater than 0), \<^verbatim>\<open>parseInt\<close> stops at
  the dot, and the request that is sent carries the quantity 0.
\<close>

theorem createRFQ_fractional_quantity:
  "createRFQ acceptAll (Some ''tok'') (String ''p1'') (Some ''0.5'') None =
     [Fetch \<lparr>endpoint = ''/rfqs'', http_method = Some ''POST'',
             authorization = Some ''Bearer tok'',
             body = Some (Object [(''product_id'', String ''p1''),
                                  (''quantity'', Number (Num 0)),
                                  (''message'', String []),
                                  (''expires_in_days'', Number (Num 7))])\<rparr>,
      Alert ''RFQ created successfully!'']"
  by (simp add: command_defs acceptAll_def toNumber_half parseInt_half)

text \<open>
  C7.  Every request that \<^verbatim>\<open>createRFQ\<close> issues is a POST to \<^verbatim>\<open>/rfqs\<close> whose body has
  \<^verbatim>\<open>expires_in_days\<close> equal to 7, whatever the product, the answers to the prompts, the
  stored token and the back end are.
\<close>

theorem createRFQ_expires_in_days:
  assumes "Fetch req \<in> set (createRFQ fetch storedToken productId quantityAnswer messageAnswer)"
  shows "endpoint req = ''/rfqs'' \<and> http_method req = Some ''POST'' \<and>
         (\<exists>b. body req = Some b \<and> getProp b ''expires_in_days'' = Some (Number (Num 7)))"
  using assms
  by (rule createRFQ_fetched) (simp add: fst_apiCall getProp_JSON_stringify jsonValue_def)

theorem createRFQ_expires_in_days_witness:
  "Fetch \<lparr>endpoint = ''/rfqs'', http_method = Some ''POST'',
          authorization = Some ''Bearer tok'',
          body = Some (Object [(''product_id'', String ''p1''),
                               (''quantity'', Number (Num 5)),
                               (''message'', String []),
                               (''expires_in_days'', Number (Num 7))])\<rparr>
     \<in> set (createRFQ acceptAll (Some ''tok'') (String ''p1'') (Some ''5'') None)
   \<and> getProp (Object [(''product_id'', String ''p1''),
                       (''quantity'', Number (Num 5)),
                       (''message'', String []),
                       (''expires_in_days'', Number (Num 7))]) ''expires_in_days''
       = Some (Number (Num 7))"
  using createRFQ_expires_in_days
    [of "\<lparr>endpoint = ''/rfqs'', http_method = Some ''POST'',
          authorization = Some ''Bearer tok'',
          body = Some (Object [(''product_id'', String ''p1''),
                               (''quantity'', Number (Num 5)),
                               (''message'', String []),
                               (''expires_in_days'', Number (Num 7))])\<rparr>"
        acceptAll "Some ''tok''" "String ''p1''" "Some ''5''" None]
  by (simp add: createRFQ_5)

section \<open>Quote submission\<close>

text \<open>
  C2.  The claim: a price per unit that is not positive is rejected before a quote is
  submitted, as \<^verbatim>\<open>createRFQ\<close> guards the quantity.  The guard of \<^verbatim>\<open>submitQuote\<close> only
  asks for non-empty answers to the price and delivery prompts.  For the price answer
  \<^verbatim>\<open>-5\<close> and the delivery answer \<^verbatim>\<open>3 days\<close> the request is sent with the price -5,
  and with an accepting back end the success alert and the reload follow.
\<close>

theorem submitQuote_negative_price:
  "submitQuote acceptAll (Some ''tok'') (String ''r1'') (Some ''-5'') (Some ''3 days'') None =
     [Fetch \<lparr>endpoint = ''/quotes'', http_method = Some ''POST'',
             authorization = Some ''Bearer tok'',
             body = Some (Object [(''rfq_id'', String ''r1''),
                                  (''price_per_unit'', Number (Num (- 5))),
                                  (''delivery_time'', String ''3 days''),
                                  (''message'', String [])])\<rparr>,
      Alert ''Quote submitted successfully!'',
      Reload]"
  by (simp add: command_defs acceptAll_def parseFloat_minus5)

section \<open>Failing responses\<close>












lemma failBoth_results:
  "apiResult (failBoth \<lparr>endpoint = ''/rfqs'', http_method = None,
                         authorization = Some ''Bearer tok'', body = None\<rparr>)
     = Inl (Error ''API call failed: Not Found'')"
  "apiResult (failBoth \<lparr>endpoint = ''/products'', http_method = None,
                         authorization = Some ''Bearer tok'', body = None\<rparr>)
     = Inl (Error ''API call failed: Internal Server Error'')"
  by (simp_all add: apiResult_def failBoth_def)




section \<open>Dashboard\<close>





text \<open>
  A counter that is present as a JSON object makes the render of its card throw; so
  does a contact person that is a JSON object.
\<close>

lemma Dashboard_object_counter:
  "Dashboard (exampleUser ''admin'')
     \<lparr>loading = False,
      stats = Object [(''total_users'', Object [(''a'', Number (Num 1))])]\<rparr> = None"
  by (simp add: Dashboard_def exampleUser_def child_def roleCards_def cards_def
      adminCounters_def counter_def js_or_def statCard_def)



section \<open>Buttons of the rendered views\<close>

lemma buttons_cards:
  assumes "cards st cs = Some xs" and "x \<in> set xs"
  shows "buttons x = []"
proof -
  from those_member[OF assms[unfolded cards_def]]
  obtain c where "(\<lambda>(title, k). Option.bind (counter st k) (statCard title)) c = Some x"
    by blast
  then show ?thesis
    by (auto simp: statCard_def child_def case_prod_beta split: Option.bind_splits if_splits)
qed

lemma buttons_roleCards:
  assumes "roleCards r name st cs = Some xs" and "x \<in> set xs"
  shows "buttons x = []"
  using assms buttons_cards by (auto simp: roleCards_def split: if_splits)

lemma buttons_Dashboard:
  assumes "Dashboard u st = Some page"
  shows "buttons page = []"
  using assms
  by (auto simp: Dashboard_def child_def split: if_splits Option.bind_splits
      dest: buttons_roleCards)

lemma buttons_productCard:
  assumes "productCard u cats product = Some e" and "a \<in> set (buttons e)"
  shows "getProp u ''role'' = Some (String ''buyer'')
         \<and> (\<exists>pid. getProp product ''id'' = Some pid \<and> a = CreateRFQ pid)"
  using assms
  by (auto simp: productCard_def child_def split: Option.bind_splits if_splits)

lemma buttons_ProductList:
  assumes "ProductList u st = Some page" and "a \<in> set (buttons page)"
  shows "getProp u ''role'' = Some (String ''buyer'') \<and> (\<exists>pid. a = CreateRFQ pid)"
proof (cases "loading st")
  case True
  with assms show ?thesis by (auto simp: ProductList_def)
next
  case False
  with assms(1) obtain ps cs where "asArray (products st) = Some ps"
    and cs: "those (map (productCard u (categories st)) ps) = Some cs"
    and page: "page = Elem [Text ''Products'', Elem cs]"
    by (auto simp: ProductList_def split: Option.bind_splits)
  from assms(2) page obtain e where "e \<in> set cs" "a \<in> set (buttons e)" by auto
  with those_member[OF cs] buttons_productCard show ?thesis by blast
qed

lemma buttons_rfqCard:
  assumes "rfqCard u prods rfq = Some e" and "a \<in> set (buttons e)"
  shows "getProp u ''role'' = Some (String ''supplier'')
         \<and> getProp rfq ''status'' = Some (String ''open'')
         \<and> (\<exists>rid. getProp rfq ''id'' = Some rid \<and> a = SubmitQuote rid)"
  using assms
  by (auto simp: rfqCard_def child_def split: Option.bind_splits if_splits)

lemma buttons_RFQList:
  assumes "RFQList u st = Some page" and "a \<in> set (buttons page)"
  shows "getProp u ''role'' = Some (String ''supplier'')
         \<and> (\<exists>rs rfq rid. rfqs st = Array rs \<and> rfq \<in> set rs
               \<and> getProp rfq ''status'' = Some (String ''open'')
               \<and> getProp rfq ''id'' = Some rid \<and> a = SubmitQuote rid)"
proof (cases "loading st")
  case True
  with assms show ?thesis by (auto simp: RFQList_def)
next
  case False
  with assms(1) obtain r rs cs where rs: "asArray (rfqs st) = Some rs"
    and cs: "those (map (rfqCard u (products st)) rs) = Some cs"
    and page: "page = Elem [Text (if strictEq r (String ''buyer'') then ''My RFQs'' else ''Available RFQs''), Elem cs]"
    by (auto simp: RFQList_def split: Option.bind_splits)
  from rs have arr: "rfqs st = Array rs"
    by (auto simp: asArray_def split: jsval.splits)
  from assms(2) page obtain e where "e \<in> set cs" "a \<in> set (buttons e)" by auto
  with those_member[OF cs] obtain rfq where "rfq \<in> set rs" "rfqCard u (products st) rfq = Some e"
    by blast
  with buttons_rfqCard[OF this(2) \<open>a \<in> set (buttons e)\<close>] arr show ?thesis by blast
qed

lemma buttons_Header:
  assumes "Header u = Some h" and "a \<in> set (buttons h)"
  shows "a = Logout"
  using assms by (auto simp: Header_def child_def split: if_splits Option.bind_splits)

lemma buttons_Navigation:
  assumes "Navigation u st = Some n" and "a \<in> set (buttons n)"
  shows "(\<exists>k. a = SetCurrentView k)
         \<or> (\<exists>page. renderComponent u st (renderContent (currentView st)) = Some page
                  \<and> a \<in> set (buttons page))"
  using assms by (auto simp: Navigation_def split: Option.bind_splits)

lemma buttons_renderComponent:
  assumes "renderComponent u st c = Some page" and "a \<in> set (buttons page)"
  shows "(getProp u ''role'' = Some (String ''buyer'') \<and> (\<exists>pid. a = CreateRFQ pid))
       \<or> (getProp u ''role'' = Some (String ''supplier'')
           \<and> (\<exists>rs rfq rid. rfqs (rfqList st) = Array rs \<and> rfq \<in> set rs
               \<and> getProp rfq ''status'' = Some (String ''open'')
               \<and> getProp rfq ''id'' = Some rid \<and> a = SubmitQuote rid))"
proof (cases c)
  case DashboardComponent
  with assms buttons_Dashboard[of u "dashboard st" page] show ?thesis
    by (simp add: renderComponent_def)
next
  case ProductListComponent
  with assms buttons_ProductList[of u "productList st" page a] show ?thesis
    by (simp add: renderComponent_def)
next
  case RFQListComponent
  with assms buttons_RFQList[of u "rfqList st" page a] show ?thesis
    by (simp add: renderComponent_def)
qed

lemma buttons_forms:
  "LoginForm lf = Some f \<Longrightarrow> a \<in> set (buttons f) \<Longrightarrow> a = SubmitLogin"
  "RegisterForm rf = Some f \<Longrightarrow> a \<in> set (buttons f)
     \<Longrightarrow> a = SubmitRegister \<or> a = ReloadPage"
  by (auto simp: LoginForm_def RegisterForm_def submitButton_def errorLine_def child_def
      inputFields_def split: if_splits Option.bind_splits)

lemma buttons_MainApp:
  assumes "MainApp st = Some page" and "a \<in> set (buttons page)"
  shows "a \<in> {Logout, SubmitLogin, SubmitRegister, ReloadPage}
       \<or> (\<exists>k. a = SetCurrentView k) \<or> (\<exists>b. a = SetShowRegister b)
       \<or> (getProp (user (auth st)) ''role'' = Some (String ''buyer'') \<and> (\<exists>pid. a = CreateRFQ pid))
       \<or> (getProp (user (auth st)) ''role'' = Some (String ''supplier'')
           \<and> (\<exists>rs rfq rid. rfqs (rfqList (nav st)) = Array rs \<and> rfq \<in> set rs
               \<and> getProp rfq ''status'' = Some (String ''open'')
               \<and> getProp rfq ''id'' = Some rid \<and> a = SubmitQuote rid))"
proof -
  consider (loading) "loading (auth st)"
    | (authed) "\<not> loading (auth st)" "truthy (user (auth st))"
    | (reg) "\<not> loading (auth st)" "\<not> truthy (user (auth st))" "showRegister st"
    | (login) "\<not> loading (auth st)" "\<not> truthy (user (auth st))" "\<not> showRegister st"
    by blast
  then show ?thesis
  proof cases
    case loading
    with assms show ?thesis by (auto simp: MainApp_def)
  next
    case authed
    with assms(1) obtain h n where h: "Header (user (auth st)) = Some h"
      and n: "Navigation (user (auth st)) (nav st) = Some n" and page: "page = Elem [h, n]"
      by (auto simp: MainApp_def split: Option.bind_splits)
    from assms(2) page have "a \<in> set (buttons h) \<or> a \<in> set (buttons n)" by auto
    then show ?thesis
    proof
      assume "a \<in> set (buttons h)"
      with h buttons_Header show ?thesis by blast
    next
      assume "a \<in> set (buttons n)"
      from buttons_Navigation[OF n this] show ?thesis
        using buttons_renderComponent[of "user (auth st)" "nav st"] by blast
    qed
  next
    case reg
    with assms obtain f where "RegisterForm (registerForm st) = Some f"
      and "a = SetShowRegister False \<or> a \<in> set (buttons f)"
      by (auto simp: MainApp_def split: Option.bind_splits)
    with buttons_forms(2) show ?thesis by blast
  next
    case login
    with assms obtain f where "LoginForm (loginForm st) = Some f"
      and "a = SetShowRegister True \<or> a \<in> set (buttons f)"
      by (auto simp: MainApp_def split: Option.bind_splits)
    with buttons_forms(1) show ?thesis by blast
  qed
qed

text \<open>
  C1.  The two state-changing actions are offered by role.  In whatever state the
  application is rendered, a button that calls \<^verbatim>\<open>createRFQ\<close> is in the render only
  when the role of the signed-in user is \<^verbatim>\<open>buyer\<close>, and a button that calls
  \<^verbatim>\<open>submitQuote\<close> only when the role is \<^verbatim>\<open>supplier\<close> and the button belongs to an
  RFQ of the list whose status is \<^verbatim>\<open>open\<close>.  So a buyer is offered no quote
  submission and a supplier no RFQ creation.  The buttons are the only callers of the
  two handlers.
\<close>

theorem state_changing_actions_gated_by_role:
  assumes "MainApp st = Some page"
  shows "(CreateRFQ pid \<in> set (buttons page) \<longrightarrow>
            getProp (user (auth st)) ''role'' = Some (String ''buyer''))
       \<and> (SubmitQuote rid \<in> set (buttons page) \<longrightarrow>
            getProp (user (auth st)) ''role'' = Some (String ''supplier'')
            \<and> (\<exists>rs rfq. rfqs (rfqList (nav st)) = Array rs \<and> rfq \<in> set rs
                   \<and> getProp rfq ''id'' = Some rid
                   \<and> getProp rfq ''status'' = Some (String ''open'')))
       \<and> (getProp (user (auth st)) ''role'' = Some (String ''buyer'') \<longrightarrow>
            SubmitQuote rid \<notin> set (buttons page))
       \<and> (getProp (user (auth st)) ''role'' = Some (String ''supplier'') \<longrightarrow>
            CreateRFQ pid \<notin> set (buttons page))"
  using buttons_MainApp[OF assms, of "CreateRFQ pid"] buttons_MainApp[OF assms, of "SubmitQuote rid"]
  by auto

lemma buttons_buyerOnProducts:
  "map_option buttons (MainApp buyerOnProducts) =
     Some [Logout, SetCurrentView ''dashboard'', SetCurrentView ''products'',
           SetCurrentView ''rfqs'', SetCurrentView ''orders'', CreateRFQ (String ''p1'')]"
  by (simp add: buyerOnProducts_def appWith_def signedIn_def exampleUser_def MainApp_def
      Header_def Navigation_def filteredNavItems_def navItems_def arrayIncludes_def
      renderContent_def renderComponent_def initialNav_def ProductList_def loadedProductList_def
      exampleProducts_def exampleCategories_def asArray_def productCard_def nameOr_def
      js_or_def strictEq_def child_def)

lemma buttons_supplierOnRFQs:
  "map_option buttons (MainApp supplierOnRFQs) =
     Some [Logout, SetCurrentView ''dashboard'', SetCurrentView ''products'',
           SetCurrentView ''rfqs'', SetCurrentView ''orders'', SubmitQuote (String ''r1'')]"
  by (simp add: supplierOnRFQs_def appWith_def signedIn_def exampleUser_def MainApp_def
      Header_def Navigation_def filteredNavItems_def navItems_def arrayIncludes_def
      renderContent_def renderComponent_def initialNav_def RFQList_def loadedRFQList_def
      exampleProducts_def exampleRFQs_def asArray_def rfqCard_def nameOr_def
      js_or_def strictEq_def child_def)

theorem state_changing_actions_gated_by_role_witness:
  "map_option buttons (MainApp buyerOnProducts) =
     Some [Logout, SetCurrentView ''dashboard'', SetCurrentView ''products'',
           SetCurrentView ''rfqs'', SetCurrentView ''orders'', CreateRFQ (String ''p1'')]
   \<and> getProp (user (auth buyerOnProducts)) ''role'' = Some (String ''buyer'')
   \<and> map_option buttons (MainApp supplierOnRFQs) =
     Some [Logout, SetCurrentView ''dashboard'', SetCurrentView ''products'',
           SetCurrentView ''rfqs'', SetCurrentView ''orders'', SubmitQuote (String ''r1'')]
   \<and> getProp (user (auth supplierOnRFQs)) ''role'' = Some (String ''supplier'')
   \<and> rfqs (rfqList (nav supplierOnRFQs)) = exampleRFQs"
proof -
  obtain page1 where p1: "MainApp buyerOnProducts = Some page1"
    and b1: "CreateRFQ (String ''p1'') \<in> set (buttons page1)"
    using buttons_buyerOnProducts by auto
  obtain page2 where p2: "MainApp supplierOnRFQs = Some page2"
    and b2: "SubmitQuote (String ''r1'') \<in> set (buttons page2)"
    using buttons_supplierOnRFQs by auto
  from state_changing_actions_gated_by_role[OF p1, of "String ''p1''" "String ''r1''"] b1
  have "getProp (user (auth buyerOnProducts)) ''role'' = Some (String ''buyer'')"
    by simp
  moreover
  from state_changing_actions_gated_by_role[OF p2, of "String ''p1''" "String ''r1''"] b2
  have "getProp (user (auth supplierOnRFQs)) ''role'' = Some (String ''supplier'')"
    by simp
  moreover have "rfqs (rfqList (nav supplierOnRFQs)) = exampleRFQs"
    by (simp add: supplierOnRFQs_def appWith_def initialNav_def loadedRFQList_def)
  ultimately show ?thesis
    using buttons_buyerOnProducts buttons_supplierOnRFQs by simp
qed

section \<open>Navigation\<close>











section \<open>Token validation\<close>

lemma mount_no_token:
  "mount fetch None = \<lparr>loading = False, user = Null, token = None, localStorage = None\<rparr>"
  by (simp add: mount_def runTokenEffect_def tokenEffect_def initialAuth_def)

text \<open>
  On page load the user is \<^verbatim>\<open>null\<close>.  A stored token whose validation fails (the
  lookup rejects, its body is not JSON, or the payload has no truthy \<^verbatim>\<open>id\<close>) is removed
  from the storage and from the state, the user stays \<^verbatim>\<open>null\<close>, and the login or
  register screen is rendered.
\<close>

lemma tokenEffect_invalid:
  assumes "token st = Some t" and "t \<noteq> []"
    and "case fetch \<lparr>endpoint = ''/me'', http_method = None,
                     authorization = Some (''Bearer '' @ t), body = None\<rparr> of
           Inl e \<Rightarrow> True
         | Inr res \<Rightarrow> (case json res of
                        Inl e \<Rightarrow> True
                      | Inr data \<Rightarrow> (case getProp data ''id'' of
                                      None \<Rightarrow> True
                                    | Some i \<Rightarrow> \<not> truthy i))"
  shows "tokenEffect fetch st = st\<lparr>localStorage := None, token := None, loading := False\<rparr>"
  using assms
  by (auto simp: tokenEffect_def dropToken_def split: sum.splits option.splits)

lemma mount_invalid_token:
  assumes "t \<noteq> []"
    and "case fetch \<lparr>endpoint = ''/me'', http_method = None,
                     authorization = Some (''Bearer '' @ t), body = None\<rparr> of
           Inl e \<Rightarrow> True
         | Inr res \<Rightarrow> (case json res of
                        Inl e \<Rightarrow> True
                      | Inr data \<Rightarrow> (case getProp data ''id'' of
                                      None \<Rightarrow> True
                                    | Some i \<Rightarrow> \<not> truthy i))"
  shows "mount fetch (Some t)
           = \<lparr>loading = False, user = Null, token = None, localStorage = None\<rparr>"
proof -
  have "tokenEffect fetch (initialAuth (Some t))
          = (initialAuth (Some t))\<lparr>localStorage := None, token := None, loading := False\<rparr>"
    using assms by (intro tokenEffect_invalid) (simp_all add: initialAuth_def)
  then show ?thesis
    by (simp add: mount_def runTokenEffect_def initialAuth_def tokenEffect_def)
qed

lemma MainApp_signed_out:
  assumes "\<not> loading (auth st)" and "user (auth st) = Null"
  shows "MainApp st =
           (if showRegister st
            then map_option
                   (\<lambda>f. Elem [f, Button (SetShowRegister False)
                                    ''Already have an account? Sign in''])
                   (RegisterForm (registerForm st))
            else map_option
                   (\<lambda>f. Elem [f, Button (SetShowRegister True)
                                    ''Don't have an account? Register''])
                   (LoginForm (loginForm st)))"
  using assms by (simp add: MainApp_def split: Option.bind_splits)

text \<open>
  C8.  The claim: whenever the stored token fails validation, the token is removed,
  the user is set to \<^verbatim>\<open>null\<close> and the login screen is rendered.  The two failure
  branches of the effect remove the token and never write the user.  After a login the
  token is stored and the user is set; the change of \<^verbatim>\<open>token\<close> runs the effect; when
  the lookup then fails, the token is removed from the storage and from the state,
  while the user stays set and the application renders the header with the Logout
  button and the navigation, not the login form.
\<close>

theorem stale_user_after_failed_validation:
  "map_option (\<lambda>a. (localStorage a, token a, user a,
                     map_option buttons (MainApp (appWith a initialNav))))
     (loginAndSettle loginThenInvalid ''ann@acme.test'' ''secret'' (mount loginThenInvalid None))
   = Some (None, None, exampleUser ''buyer'',
           Some [Logout, SetCurrentView ''dashboard'', SetCurrentView ''products'',
                 SetCurrentView ''rfqs'', SetCurrentView ''orders''])"
  by (simp add: mount_no_token loginAndSettle_def login_def loginThenInvalid_def
      JSON_stringify_def jsonValue_def runTokenEffect_def tokenEffect_def dropToken_def
      exampleUser_def MainApp_def appWith_def Header_def Navigation_def filteredNavItems_def
      navItems_def arrayIncludes_def renderContent_def renderComponent_def initialNav_def
      Dashboard_def initialDashboard_def child_def)

section \<open>Registration\<close>

lemma snd_set_update: "snd ` set (AList.update k v al) \<subseteq> insert v (snd ` set al)"
  by (induction al) auto

lemma formReachable_strings:
  assumes "formReachable fd"
  shows "snd ` set fd \<subseteq> range String"
  using assms
proof induction
  case initialForm
  show ?case by (auto simp: initialFormData_def)
next
  case (input fd k v)
  with snd_set_update[of k "String v" fd] show ?case
    unfolding onChange_def by blast
next
  case (select fd v)
  with snd_set_update[of "''role''" "String v" fd] show ?case
    unfolding onChange_def by blast
qed

lemma formReachable_role:
  assumes "formReachable fd"
  shows "map_of fd ''role'' = Some (String ''buyer'')
         \<or> map_of fd ''role'' = Some (String ''supplier'')"
  using assms
  by induction
    (auto simp: onChange_def update_conv' initialFormData_def inputFields_def roleOptions_def)

lemma filter_defined:
  assumes "snd ` set fd \<subseteq> range String"
  shows "filter (\<lambda>(k, v). v \<noteq> Undefined) fd = fd"
proof -
  have "\<And>x. x \<in> set fd \<Longrightarrow> snd x \<noteq> Undefined"
    using assms by force
  then show ?thesis
    by (induction fd) (auto simp: case_prod_beta)
qed

lemma register_request:
  "fst (register fetch fd) =
     \<lparr>endpoint = ''/register'', http_method = Some ''POST'', authorization = None,
      body = Some (JSON_stringify fd)\<rparr>"
  by (simp add: register_def Let_def)

lemma handleRegister_fetch:
  assumes "Fetch req \<in> set (snd (handleRegister fetch st))"
  shows "req = fst (register fetch (formData st))"
  using assms
  by (auto simp: handleRegister_def Let_def case_prod_beta split: auth_result.splits)

lemma filledRegisterForm_reachable: "formReachable (formData filledRegisterForm)"
proof -
  have "formReachable (onChange ''email'' ''ann@acme.test'' initialFormData)"
    by (rule formReachable.input[OF formReachable.initialForm]) (simp add: inputFields_def)
  then have "formReachable (onChange ''role'' ''supplier''
                              (onChange ''email'' ''ann@acme.test'' initialFormData))"
    by (rule formReachable.select) (simp add: roleOptions_def)
  then show ?thesis
    by (simp add: filledRegisterForm_def)
qed

lemma handleRegister_filled:
  "snd (handleRegister acceptAll filledRegisterForm) =
     [Fetch \<lparr>endpoint = ''/register'', http_method = Some ''POST'', authorization = None,
             body = Some (Object [(''email'', String ''ann@acme.test''),
                                  (''password'', String []),
                                  (''company_name'', String []),
                                  (''contact_person'', String []),
                                  (''phone'', String []),
                                  (''role'', String ''supplier'')])\<rparr>]"
  by (simp add: handleRegister_def register_def acceptAll_def filledRegisterForm_def
      initialRegisterForm_def initialFormData_def onChange_def JSON_stringify_def jsonValue_def)

text \<open>
  C9.  Self-registration cannot ask for an admin.  The form data start with the role
  \<^verbatim>\<open>buyer\<close>; the select offers the values \<^verbatim>\<open>buyer\<close> and \<^verbatim>\<open>supplier\<close>; and for all
  form data that a user can bring about (any text in the inputs, an offered value in the
  select), the request that \<^verbatim>\<open>handleSubmit\<close> sends is to \<^verbatim>\<open>/register\<close> with a body
  whose \<^verbatim>\<open>role\<close> is \<^verbatim>\<open>buyer\<close> or \<^verbatim>\<open>supplier\<close>.
\<close>

theorem registration_role_is_buyer_or_supplier:
  "formValue initialFormData ''role'' = String ''buyer''
   \<and> map fst roleOptions = [''buyer'', ''supplier'']
   \<and> (formReachable (formData st) \<and> Fetch req \<in> set (snd (handleRegister fetch st)) \<longrightarrow>
        endpoint req = ''/register''
        \<and> (\<exists>b. body req = Some b
               \<and> (getProp b ''role'' = Some (String ''buyer'')
                    \<or> getProp b ''role'' = Some (String ''supplier''))))"
proof (intro conjI impI)
  assume a: "formReachable (formData st) \<and> Fetch req \<in> set (snd (handleRegister fetch st))"
  then have req: "req = fst (register fetch (formData st))"
    using handleRegister_fetch by blast
  then show "endpoint req = ''/register''"
    by (simp add: register_request)
  from a have "filter (\<lambda>(k, v). v \<noteq> Undefined) (formData st) = formData st"
    using formReachable_strings filter_defined by blast
  moreover from a have "map_of (formData st) ''role'' = Some (String ''buyer'')
      \<or> map_of (formData st) ''role'' = Some (String ''supplier'')"
    using formReachable_role by blast
  ultimately have "getProp (JSON_stringify (formData st)) ''role'' = Some (String ''buyer'')
      \<or> getProp (JSON_stringify (formData st)) ''role'' = Some (String ''supplier'')"
    by (auto simp: getProp_JSON_stringify jsonValue_def)
  with req show "\<exists>b. body req = Some b
               \<and> (getProp b ''role'' = Some (String ''buyer'')
                    \<or> getProp b ''role'' = Some (String ''supplier''))"
    by (simp add: register_request)
qed (simp_all add: formValue_def initialFormData_def roleOptions_def)

theorem registration_role_is_buyer_or_supplier_witness:
  "formReachable (formData filledRegisterForm)
   \<and> Fetch \<lparr>endpoint = ''/register'', http_method = Some ''POST'', authorization = None,
             body = Some (Object [(''email'', String ''ann@acme.test''),
                                  (''password'', String []),
                                  (''company_name'', String []),
                                  (''contact_person'', String []),
                                  (''phone'', String []),
                                  (''role'', String ''supplier'')])\<rparr>
       \<in> set (snd (handleRegister acceptAll filledRegisterForm))
   \<and> getProp (Object [(''email'', String ''ann@acme.test''),
                       (''password'', String []),
                       (''company_name'', String []),
                       (''contact_person'', String []),
                       (''phone'', String []),
                       (''role'', String ''supplier'')]) ''role''
       = Some (String ''supplier'')"
  using registration_role_is_buyer_or_supplier
    [of filledRegisterForm
        "\<lparr>endpoint = ''/register'', http_method = Some ''POST'', authorization = None,
          body = Some (Object [(''email'', String ''ann@acme.test''),
                               (''password'', String []),
                               (''company_name'', String []),
                               (''contact_person'', String []),
                               (''phone'', String []),
                               (''role'', String ''supplier'')])\<rparr>"
        acceptAll]
    filledRegisterForm_reachable
  by (simp add: handleRegister_filled)

end
